theory Spec2Isabelle
  imports Main "HOL-Library.Word" "HOL-Library.FSet"
begin

section \<open>Dragonfly window classes: \<open>BaseWindow\<close> and \<open>Win32Window\<close>\<close>

text \<open>
  The development embeds \<^verbatim>\<open>dragonfly/windows/base_window.py\<close> and
  \<^verbatim>\<open>dragonfly/windows/win32_window.py\<close>. Window objects live in an explicit object
  store, because the two class-level dictionaries \<^verbatim>\<open>_windows_by_id\<close> and
  \<^verbatim>\<open>_windows_by_name\<close> hold references to them. Every native call is appended to a
  log, and its outcome is read from an oracle that sees the log so far, so that the
  operating system may answer in any way, also by raising.
\<close>

subsection \<open>Python values and exceptions\<close>

text \<open>
  The values a caller can pass where the source expects a handle or a name.
  \<open>PyObj\<close> stands for an object of any other class, named by its \<^verbatim>\<open>repr\<close>.
\<close>

datatype pyval = PyNone | PyBool bool | PyInt int | PyStr string | PyObj string

text \<open>
  The exceptions of the source, all of them subclasses of \<^verbatim>\<open>Exception\<close>.
  \<open>NativeError\<close> is an exception raised inside a native call (\<^verbatim>\<open>pywintypes.error\<close>,
  \<^verbatim>\<open>OSError\<close>, \<^verbatim>\<open>ctypes.ArgumentError\<close>, \<^verbatim>\<open>AttributeError\<close> for a function the
  library does not export).
\<close>

datatype error =
    TypeError
  | NotImplementedError
  | AssertionError
  | IndexError
  | ValueError
  | NativeError string

text \<open>
  \<^verbatim>\<open>isinstance(id, integer_types)\<close>: \<^verbatim>\<open>int\<close> (and \<^verbatim>\<open>long\<close>), and \<^verbatim>\<open>bool\<close>, which
  is a subclass of \<^verbatim>\<open>int\<close>.
\<close>

fun isinstance_integer_types :: "pyval \<Rightarrow> bool" where
  "isinstance_integer_types (PyInt i) = True"
| "isinstance_integer_types (PyBool b) = True"
| "isinstance_integer_types v = False"

text \<open>
  The key under which a dictionary files an integer value: \<^verbatim>\<open>True\<close> and \<^verbatim>\<open>1\<close> are
  equal and hash alike, and so are \<^verbatim>\<open>False\<close> and \<^verbatim>\<open>0\<close>. Only used on values that passed
  \<open>isinstance_integer_types\<close>.
\<close>

fun dict_key :: "pyval \<Rightarrow> int" where
  "dict_key (PyInt i) = i"
| "dict_key (PyBool b) = (if b then 1 else 0)"
| "dict_key v = 0"

subsection \<open>Objects, registries and the native call log\<close>

datatype cls = BaseWindow | Win32Window

type_synonym ref = nat

text \<open>A window object: its class, \<^verbatim>\<open>self._id\<close> and \<^verbatim>\<open>self._names\<close>.\<close>

record window =
  w_class :: cls
  w_id :: pyval
  w_names :: "string fset"

type_synonym wchar = "16 word"

text \<open>The native calls of \<^verbatim>\<open>win32gui\<close> and \<^verbatim>\<open>ctypes.windll\<close>, with their arguments.\<close>

datatype event =
    GetForegroundWindow
  | EnumWindows
  | GetWindowRect pyval
  | IsIconic pyval
  | ShowWindow pyval int
  | SetForegroundWindow pyval
  | MoveWindow pyval int int int int int
  | GetWindowThreadProcessId pyval
  | OpenProcess int int "32 word"
  | QueryFullProcessImageNameW int
  | GetModuleFileNameExW int
  | CloseHandle int

text \<open>
  The program state: the object store (\<open>lim\<close> is the next free reference), the two
  class attributes of \<^verbatim>\<open>BaseWindow\<close>, which \<^verbatim>\<open>Win32Window\<close> inherits, and the log of
  native calls issued so far.
\<close>

record state =
  objs :: "ref \<Rightarrow> window"
  lim :: ref
  windows_by_id :: "int \<rightharpoonup> ref"
  windows_by_name :: "string \<rightharpoonup> ref"
  calls :: "event list"

type_synonym 'a result = "(error + 'a) \<times> state"

definition blank :: "cls \<Rightarrow> window" where
  "blank c = \<lparr>w_class = c, w_id = PyNone, w_names = {||}\<rparr>"

definition initial_state :: state where
  "initial_state =
     \<lparr>objs = (\<lambda>r. blank BaseWindow), lim = 0, windows_by_id = Map.empty,
      windows_by_name = Map.empty, calls = []\<rparr>"

text \<open>Object creation, before \<^verbatim>\<open>__init__\<close> runs: a new reference of the given class.\<close>

definition new_object :: "cls \<Rightarrow> state \<Rightarrow> ref \<times> state" where
  "new_object c st = (lim st, st\<lparr>objs := (objs st)(lim st := blank c), lim := Suc (lim st)\<rparr>)"

subsection \<open>\<^verbatim>\<open>BaseWindow\<close>: identity\<close>

text \<open>
  \<^verbatim>\<open>
  def _set_id(self, id):
      if not isinstance(id, integer_types):
          raise TypeError(...)
      self._id = id
      self._windows_by_id[id] = self
  \<close>
\<close>

definition set_id :: "ref \<Rightarrow> pyval \<Rightarrow> state \<Rightarrow> unit result" where
  "set_id self v st =
     (if \<not> isinstance_integer_types v then (Inl TypeError, st)
      else (Inr (),
            st\<lparr>objs := (objs st)(self := (objs st self)\<lparr>w_id := v\<rparr>),
               windows_by_id := (windows_by_id st)(dict_key v \<mapsto> self)\<rparr>))"

text \<open>The setters of the properties \<^verbatim>\<open>id\<close> and \<^verbatim>\<open>handle\<close> both run \<^verbatim>\<open>_set_id\<close>.\<close>

definition id_setter :: "ref \<Rightarrow> pyval \<Rightarrow> state \<Rightarrow> unit result" where
  "id_setter self v st = set_id self v st"

definition handle_setter :: "ref \<Rightarrow> pyval \<Rightarrow> state \<Rightarrow> unit result" where
  "handle_setter self v st = set_id self v st"

text \<open>The getters of \<^verbatim>\<open>id\<close>, \<^verbatim>\<open>handle\<close> and \<^verbatim>\<open>_handle\<close> all read \<^verbatim>\<open>self._id\<close>.\<close>

definition id_getter :: "ref \<Rightarrow> state \<Rightarrow> pyval" where
  "id_getter self st = w_id (objs st self)"

definition handle_getter :: "ref \<Rightarrow> state \<Rightarrow> pyval" where
  "handle_getter self st = w_id (objs st self)"

text \<open>
  \<^verbatim>\<open>
  def __init__(self, id):
      self._id = None
      self.id = id
      self._names = set()
  \<close>
  When the setter raises, the exception leaves \<^verbatim>\<open>__init__\<close> and the third line is not
  reached.
\<close>

definition BaseWindow_init :: "ref \<Rightarrow> pyval \<Rightarrow> state \<Rightarrow> unit result" where
  "BaseWindow_init self v st =
     (let st1 = st\<lparr>objs := (objs st)(self := (objs st self)\<lparr>w_id := PyNone\<rparr>)\<rparr>
      in case id_setter self v st1 of
           (Inl e, st2) \<Rightarrow> (Inl e, st2)
         | (Inr u, st2) \<Rightarrow>
             (Inr (), st2\<lparr>objs := (objs st2)(self := (objs st2 self)\<lparr>w_names := {||}\<rparr>)\<rparr>))"

text \<open>
  \<^verbatim>\<open>Win32Window.__init__(self, handle)\<close> calls \<^verbatim>\<open>BaseWindow.__init__(self, id=handle)\<close>.
\<close>

definition Win32Window_init :: "ref \<Rightarrow> pyval \<Rightarrow> state \<Rightarrow> unit result" where
  "Win32Window_init self v st = BaseWindow_init self v st"

text \<open>
  The constructor calls \<^verbatim>\<open>BaseWindow(id)\<close> and \<^verbatim>\<open>Win32Window(handle)\<close>: create the object,
  run \<^verbatim>\<open>__init__\<close>, and return the reference unless \<^verbatim>\<open>__init__\<close> raised.
\<close>

definition construct :: "cls \<Rightarrow> pyval \<Rightarrow> state \<Rightarrow> ref result" where
  "construct c v st =
     (case new_object c st of
        (self, st1) \<Rightarrow>
          (case (case c of BaseWindow \<Rightarrow> BaseWindow_init self v st1
                         | Win32Window \<Rightarrow> Win32Window_init self v st1) of
             (Inl e, st2) \<Rightarrow> (Inl e, st2)
           | (Inr u, st2) \<Rightarrow> (Inr self, st2)))"

subsection \<open>\<^verbatim>\<open>BaseWindow\<close>: names\<close>

text \<open>
  \<^verbatim>\<open>
  def _get_name(self):
      if not self._names:
          return None
      for name in self._names:
          return name
  \<close>
  \<^verbatim>\<open>self._names\<close> is a Python set; the order in which a set is iterated is decided by
  the interpreter's hashing. The order is the parameter \<open>iter\<close>. \<open>None\<close> is Python's
  \<^verbatim>\<open>None\<close>.
\<close>

definition get_name :: "(string fset \<Rightarrow> string list) \<Rightarrow> ref \<Rightarrow> state \<Rightarrow> string option" where
  "get_name iter self st =
     (if w_names (objs st self) = {||} then None
      else case iter (w_names (objs st self)) of [] \<Rightarrow> None | name # rest \<Rightarrow> Some name)"

text \<open>
  \<^verbatim>\<open>
  def _set_name(self, name):
      assert isinstance(name, string_types)
      self._names.add(name)
      self._windows_by_name[name] = self
  \<close>
  \<^verbatim>\<open>isinstance(name, string_types)\<close> holds of the strings, \<open>PyStr\<close>, and of nothing else.
\<close>

definition set_name :: "ref \<Rightarrow> pyval \<Rightarrow> state \<Rightarrow> unit result" where
  "set_name self v st =
     (case v of
        PyStr name \<Rightarrow>
          (Inr (),
           st\<lparr>objs := (objs st)(self := (objs st self)\<lparr>w_names := finsert name (w_names (objs st self))\<rparr>),
              windows_by_name := (windows_by_name st)(name \<mapsto> self)\<rparr>)
      | _ \<Rightarrow> (Inl AssertionError, st))"

subsection \<open>Rectangles, monitors and the operating system\<close>

text \<open>
  Modelled from the spec: the class \<^verbatim>\<open>Rectangle\<close> of \<^verbatim>\<open>rectangle.py\<close>, which is not
  part of the sources at hand: "a position/size value (left, top, width, height)".
  \<^verbatim>\<open>rectangle.ltwh\<close> is the tuple of the four fields.
\<close>

record Rectangle =
  r_left :: int
  r_top :: int
  r_width :: int
  r_height :: int

definition ltwh :: "Rectangle \<Rightarrow> int \<times> int \<times> int \<times> int" where
  "ltwh r = (r_left r, r_top r, r_width r, r_height r)"

text \<open>
  Modelled from the spec: the entries of the list \<^verbatim>\<open>monitors\<close> of \<^verbatim>\<open>monitor.py\<close>, which
  is not part of the sources at hand: "monitor descriptors (rectangle)".
\<close>

record Monitor =
  m_handle :: int
  rectangle :: Rectangle

text \<open>
  What the operating system answers to each native call, given the calls issued before
  it and the arguments. \<open>Inl\<close> is an exception raised by the call. \<^verbatim>\<open>EnumWindows\<close> answers
  with the handles it passes to the callback, one after the other, and with the exception
  it raises at the end, if any. The two path queries answer with the characters they write
  to the start of the buffer.
\<close>

record os =
  os_GetForegroundWindow :: "event list \<Rightarrow> error + int"
  os_EnumWindows :: "event list \<Rightarrow> int list \<times> error option"
  os_GetWindowRect :: "event list \<Rightarrow> pyval \<Rightarrow> error + (int \<times> int \<times> int \<times> int)"
  os_IsIconic :: "event list \<Rightarrow> pyval \<Rightarrow> error + int"
  os_ShowWindow :: "event list \<Rightarrow> pyval \<Rightarrow> int \<Rightarrow> error + int"
  os_SetForegroundWindow :: "event list \<Rightarrow> pyval \<Rightarrow> error + unit"
  os_MoveWindow :: "event list \<Rightarrow> pyval \<Rightarrow> int \<Rightarrow> int \<Rightarrow> int \<Rightarrow> int \<Rightarrow> int \<Rightarrow> error + unit"
  os_GetWindowThreadProcessId :: "event list \<Rightarrow> pyval \<Rightarrow> error + 32 word"
  os_OpenProcess :: "event list \<Rightarrow> int \<Rightarrow> int \<Rightarrow> 32 word \<Rightarrow> error + int"
  os_QueryFullProcessImageNameW :: "event list \<Rightarrow> int \<Rightarrow> error + wchar list"
  os_GetModuleFileNameExW :: "event list \<Rightarrow> int \<Rightarrow> error + wchar list"
  os_CloseHandle :: "event list \<Rightarrow> int \<Rightarrow> error + int"

text \<open>A native call: ask the oracle with the log so far, then log the call.\<close>

definition native :: "(event list \<Rightarrow> error + 'a) \<Rightarrow> event \<Rightarrow> state \<Rightarrow> 'a result" where
  "native answer ev st = (answer (calls st), st\<lparr>calls := calls st @ [ev]\<rparr>)"

text \<open>
  \<^verbatim>\<open>try: body except Exception: handler\<close> and \<^verbatim>\<open>try: body finally: cleanup\<close>. An exception
  raised by the cleanup replaces the outcome of the body.
\<close>

definition try_except :: "(state \<Rightarrow> 'a result) \<Rightarrow> (state \<Rightarrow> 'a result) \<Rightarrow> state \<Rightarrow> 'a result" where
  "try_except body handler st =
     (case body st of (Inl e, st1) \<Rightarrow> handler st1 | (Inr x, st1) \<Rightarrow> (Inr x, st1))"

definition try_finally :: "(state \<Rightarrow> 'a result) \<Rightarrow> (state \<Rightarrow> 'b result) \<Rightarrow> state \<Rightarrow> 'a result" where
  "try_finally body cleanup st =
     (case body st of
        (r, st1) \<Rightarrow>
          (case cleanup st1 of (Inl e, st2) \<Rightarrow> (Inl e, st2) | (Inr x, st2) \<Rightarrow> (r, st2)))"

subsection \<open>\<^verbatim>\<open>Win32Window\<close>: discovery\<close>

text \<open>
  \<^verbatim>\<open>
  def get_foreground(cls):
      handle = win32gui.GetForegroundWindow()
      if handle in cls._windows_by_id:
          return cls._windows_by_id[handle]
      window = Win32Window(handle=handle)
      return window
  \<close>
\<close>

definition get_foreground :: "os \<Rightarrow> state \<Rightarrow> ref result" where
  "get_foreground os st =
     (case native (os_GetForegroundWindow os) GetForegroundWindow st of
        (Inl e, st1) \<Rightarrow> (Inl e, st1)
      | (Inr handle, st1) \<Rightarrow>
          (case windows_by_id st1 handle of
             Some window \<Rightarrow> (Inr window, st1)
           | None \<Rightarrow> construct Win32Window (PyInt handle) st1))"

text \<open>
  \<^verbatim>\<open>
  def get_all_windows(cls):
      def function(handle, argument):
          argument.append(Win32Window(handle))
      argument = []
      win32gui.EnumWindows(function, argument)
      return argument
  \<close>
  \<open>enum_callback\<close> is the callback \<^verbatim>\<open>function\<close> run on each enumerated handle in turn;
  an exception in the callback ends the enumeration.
\<close>

fun enum_callback :: "int list \<Rightarrow> ref list \<Rightarrow> state \<Rightarrow> (ref list) result" where
  "enum_callback [] argument st = (Inr argument, st)"
| "enum_callback (handle # handles) argument st =
     (case construct Win32Window (PyInt handle) st of
        (Inl e, st1) \<Rightarrow> (Inl e, st1)
      | (Inr window, st1) \<Rightarrow> enum_callback handles (argument @ [window]) st1)"

definition get_all_windows :: "os \<Rightarrow> state \<Rightarrow> (ref list) result" where
  "get_all_windows os st =
     (case os_EnumWindows os (calls st) of
        (handles, failure) \<Rightarrow>
          (case enum_callback handles [] (st\<lparr>calls := calls st @ [EnumWindows]\<rparr>) of
             (Inl e, st1) \<Rightarrow> (Inl e, st1)
           | (Inr argument, st1) \<Rightarrow>
               (case failure of Some e \<Rightarrow> (Inl e, st1) | None \<Rightarrow> (Inr argument, st1))))"

subsection \<open>\<^verbatim>\<open>Win32Window\<close>: state and control\<close>

text \<open>The constants of \<^verbatim>\<open>win32con\<close> that the source passes to \<^verbatim>\<open>ShowWindow\<close>.\<close>

definition SW_MAXIMIZE :: int where "SW_MAXIMIZE = 3"
definition SW_MINIMIZE :: int where "SW_MINIMIZE = 6"
definition SW_RESTORE :: int where "SW_RESTORE = 9"

text \<open>
  \<^verbatim>\<open>is_minimized = _win32gui_test("IsIconic")\<close>, a property whose getter is
  \<^verbatim>\<open>lambda self: test(self._handle) and True or False\<close>.
\<close>

definition is_minimized :: "os \<Rightarrow> ref \<Rightarrow> state \<Rightarrow> bool result" where
  "is_minimized os self st =
     (case native (\<lambda>log. os_IsIconic os log (w_id (objs st self))) (IsIconic (w_id (objs st self))) st of
        (Inl e, st1) \<Rightarrow> (Inl e, st1)
      | (Inr r, st1) \<Rightarrow> (Inr (r \<noteq> 0), st1))"

text \<open>
  \<^verbatim>\<open>_win32gui_show_window(state)\<close> is
  \<^verbatim>\<open>lambda self: win32gui.ShowWindow(self._handle, state)\<close>.
\<close>

definition win32gui_show_window :: "int \<Rightarrow> os \<Rightarrow> ref \<Rightarrow> state \<Rightarrow> int result" where
  "win32gui_show_window state os self st =
     native (\<lambda>log. os_ShowWindow os log (w_id (objs st self)) state)
       (ShowWindow (w_id (objs st self)) state) st"

definition minimize :: "os \<Rightarrow> ref \<Rightarrow> state \<Rightarrow> int result" where
  "minimize = win32gui_show_window SW_MINIMIZE"

definition maximize :: "os \<Rightarrow> ref \<Rightarrow> state \<Rightarrow> int result" where
  "maximize = win32gui_show_window SW_MAXIMIZE"

definition restore :: "os \<Rightarrow> ref \<Rightarrow> state \<Rightarrow> int result" where
  "restore = win32gui_show_window SW_RESTORE"

text \<open>\<^verbatim>\<open>_set_foreground = _win32gui_func("SetForegroundWindow")\<close>.\<close>

definition win32_set_foreground :: "os \<Rightarrow> ref \<Rightarrow> state \<Rightarrow> unit result" where
  "win32_set_foreground os self st =
     native (\<lambda>log. os_SetForegroundWindow os log (w_id (objs st self)))
       (SetForegroundWindow (w_id (objs st self))) st"

text \<open>
  \<^verbatim>\<open>
  def set_foreground(self):
      if self.is_minimized:
          self.restore()
      self._set_foreground()
  \<close>
\<close>

definition set_foreground :: "os \<Rightarrow> ref \<Rightarrow> state \<Rightarrow> unit result" where
  "set_foreground os self st =
     (case is_minimized os self st of
        (Inl e, st1) \<Rightarrow> (Inl e, st1)
      | (Inr minimized, st1) \<Rightarrow>
          (if minimized then
             (case restore os self st1 of
                (Inl e, st2) \<Rightarrow> (Inl e, st2)
              | (Inr r, st2) \<Rightarrow> win32_set_foreground os self st2)
           else win32_set_foreground os self st1))"

subsection \<open>\<^verbatim>\<open>Win32Window\<close>: the executable path\<close>

text \<open>
  \<^verbatim>\<open>(c_wchar * n)()\<close> is a buffer of \<open>n\<close> NUL characters; a native call writes to its
  start and never past its end.
\<close>

definition c_wchar_array :: "nat \<Rightarrow> wchar list \<Rightarrow> wchar list" where
  "c_wchar_array n written = take n (written @ replicate n 0)"

text \<open>
  \<^verbatim>\<open>buffer = buffer[:]; buffer = buffer[:buffer.index("\0")]\<close>: \<^verbatim>\<open>index\<close> raises
  \<^verbatim>\<open>ValueError\<close> when the buffer holds no NUL.
\<close>

definition until_nul :: "wchar list \<Rightarrow> error + wchar list" where
  "until_nul buffer =
     (if 0 \<in> set buffer then Inr (takeWhile (\<lambda>c. c \<noteq> 0) buffer) else Inl ValueError)"

text \<open>The body of the \<^verbatim>\<open>try\<close>: \<^verbatim>\<open>QueryFullProcessImageNameW\<close> on a buffer of 256.\<close>

definition query_modern :: "os \<Rightarrow> int \<Rightarrow> state \<Rightarrow> (wchar list) result" where
  "query_modern os handle st =
     (case native (\<lambda>log. os_QueryFullProcessImageNameW os log handle)
             (QueryFullProcessImageNameW handle) st of
        (Inl e, st1) \<Rightarrow> (Inl e, st1)
      | (Inr written, st1) \<Rightarrow> (until_nul (c_wchar_array 256 written), st1))"

text \<open>The body of the \<^verbatim>\<open>except Exception\<close>: \<^verbatim>\<open>GetModuleFileNameExW\<close> on a buffer of 256.\<close>

definition query_legacy :: "os \<Rightarrow> int \<Rightarrow> state \<Rightarrow> (wchar list) result" where
  "query_legacy os handle st =
     (case native (\<lambda>log. os_GetModuleFileNameExW os log handle)
             (GetModuleFileNameExW handle) st of
        (Inl e, st1) \<Rightarrow> (Inl e, st1)
      | (Inr written, st1) \<Rightarrow> (until_nul (c_wchar_array 256 written), st1))"

text \<open>\<^verbatim>\<open>windll.kernel32.CloseHandle(handle)\<close>, the body of the \<^verbatim>\<open>finally\<close>.\<close>

definition close_handle :: "os \<Rightarrow> int \<Rightarrow> state \<Rightarrow> int result" where
  "close_handle os handle st = native (\<lambda>log. os_CloseHandle os log handle) (CloseHandle handle) st"

text \<open>
  \<^verbatim>\<open>
  def _get_window_module(self):
      pid = c_ulong()
      windll.user32.GetWindowThreadProcessId(self._handle, pointer(pid))
      handle = windll.kernel32.OpenProcess(0x0410, 0, pid)
      try:
          ... QueryFullProcessImageNameW ...
      except Exception:
          ... GetModuleFileNameExW ...
      finally:
          windll.kernel32.CloseHandle(handle)
      return str(buffer)
  \<close>
  The result is the text of the buffer (\<^verbatim>\<open>str\<close> of a string is the string).
\<close>

definition get_window_module :: "os \<Rightarrow> ref \<Rightarrow> state \<Rightarrow> (wchar list) result" where
  "get_window_module os self st =
     (case native (\<lambda>log. os_GetWindowThreadProcessId os log (w_id (objs st self)))
             (GetWindowThreadProcessId (w_id (objs st self))) st of
        (Inl e, st1) \<Rightarrow> (Inl e, st1)
      | (Inr pid, st1) \<Rightarrow>
          (case native (\<lambda>log. os_OpenProcess os log 0x0410 0 pid) (OpenProcess 0x0410 0 pid) st1 of
             (Inl e, st2) \<Rightarrow> (Inl e, st2)
           | (Inr handle, st2) \<Rightarrow>
               try_finally
                 (try_except (query_modern os handle) (query_legacy os handle))
                 (close_handle os handle) st2))"

subsection \<open>Geometry\<close>

text \<open>
  \<^verbatim>\<open>
  def get_position(self):
      l, t, r, b = self._get_rect()
      w = r - l; h = b - t
      return Rectangle(l, t, w, h)
  \<close>
\<close>

definition Win32Window_get_position :: "os \<Rightarrow> ref \<Rightarrow> state \<Rightarrow> Rectangle result" where
  "Win32Window_get_position os self st =
     (case native (\<lambda>log. os_GetWindowRect os log (w_id (objs st self)))
             (GetWindowRect (w_id (objs st self))) st of
        (Inl e, st1) \<Rightarrow> (Inl e, st1)
      | (Inr (l, t, r, b), st1) \<Rightarrow>
          (Inr \<lparr>r_left = l, r_top = t, r_width = r - l, r_height = b - t\<rparr>, st1))"

text \<open>
  \<^verbatim>\<open>
  def set_position(self, rectangle):
      assert isinstance(rectangle, Rectangle)
      l, t, w, h = rectangle.ltwh
      win32gui.MoveWindow(self._handle, l, t, w, h, 1)
  \<close>
\<close>

definition Win32Window_set_position :: "os \<Rightarrow> ref \<Rightarrow> Rectangle \<Rightarrow> state \<Rightarrow> unit result" where
  "Win32Window_set_position os self rect st =
     (case ltwh rect of
        (l, t, w, h) \<Rightarrow>
          native (\<lambda>log. os_MoveWindow os log (w_id (objs st self)) l t w h 1)
            (MoveWindow (w_id (objs st self)) l t w h 1) st)"

text \<open>\<^verbatim>\<open>BaseWindow.get_position\<close> and \<^verbatim>\<open>BaseWindow.set_position\<close> raise.\<close>

definition BaseWindow_get_position :: "ref \<Rightarrow> state \<Rightarrow> Rectangle result" where
  "BaseWindow_get_position self st = (Inl NotImplementedError, st)"

definition BaseWindow_set_position :: "ref \<Rightarrow> Rectangle \<Rightarrow> state \<Rightarrow> unit result" where
  "BaseWindow_set_position self rect st = (Inl NotImplementedError, st)"

text \<open>
  \<^verbatim>\<open>self.get_position()\<close> and \<^verbatim>\<open>self.set_position(rectangle)\<close>: the method of the
  object's class.
\<close>

definition get_position :: "os \<Rightarrow> ref \<Rightarrow> state \<Rightarrow> Rectangle result" where
  "get_position os self st =
     (case w_class (objs st self) of
        BaseWindow \<Rightarrow> BaseWindow_get_position self st
      | Win32Window \<Rightarrow> Win32Window_get_position os self st)"

definition set_position :: "os \<Rightarrow> ref \<Rightarrow> Rectangle \<Rightarrow> state \<Rightarrow> unit result" where
  "set_position os self rect st =
     (case w_class (objs st self) of
        BaseWindow \<Rightarrow> BaseWindow_set_position self rect st
      | Win32Window \<Rightarrow> Win32Window_set_position os self rect st)"

text \<open>
  \<^verbatim>\<open>
  def get_containing_monitor(self):
      center = self.get_position().center
      for monitor in monitors:
          if monitor.rectangle.contains(center):
              return monitor
      # Fall through, return first monitor.
      return monitors[0]
  \<close>
  \<^verbatim>\<open>Rectangle.center\<close> and \<^verbatim>\<open>Rectangle.contains\<close> belong to \<^verbatim>\<open>rectangle.py\<close> and the list
  \<^verbatim>\<open>monitors\<close> to \<^verbatim>\<open>monitor.py\<close>; they are the parameters \<open>center\<close>, \<open>contains\<close> and
  \<open>monitors\<close>. \<open>first_containing\<close> is the \<^verbatim>\<open>for\<close> loop, \<open>None\<close> when it falls through.
\<close>

fun first_containing :: "(Rectangle \<Rightarrow> 'p \<Rightarrow> bool) \<Rightarrow> 'p \<Rightarrow> Monitor list \<Rightarrow> Monitor option" where
  "first_containing contains c [] = None"
| "first_containing contains c (monitor # rest) =
     (if contains (rectangle monitor) c then Some monitor
      else first_containing contains c rest)"

definition get_containing_monitor ::
  "(Rectangle \<Rightarrow> 'p) \<Rightarrow> (Rectangle \<Rightarrow> 'p \<Rightarrow> bool) \<Rightarrow> Monitor list \<Rightarrow> os \<Rightarrow> ref \<Rightarrow> state
     \<Rightarrow> Monitor result" where
  "get_containing_monitor center contains monitors os self st =
     (case get_position os self st of
        (Inl e, st1) \<Rightarrow> (Inl e, st1)
      | (Inr position, st1) \<Rightarrow>
          (case first_containing contains (center position) monitors of
             Some monitor \<Rightarrow> (Inr monitor, st1)
           | None \<Rightarrow>
               (case monitors of
                  [] \<Rightarrow> (Inl IndexError, st1)
                | monitor # rest \<Rightarrow> (Inr monitor, st1))))"

subsection \<open>\<^verbatim>\<open>BaseWindow.move\<close>\<close>

text \<open>
  The dictionary \<^verbatim>\<open>window_movers\<close> of \<^verbatim>\<open>window_movers.py\<close> is a parameter: a map from
  names to window movers, each given by its method \<^verbatim>\<open>move_window(window, origin,
  destination)\<close>.
\<close>

type_synonym mover = "ref \<Rightarrow> Rectangle \<Rightarrow> Rectangle \<Rightarrow> state \<Rightarrow> unit result"

text \<open>
  \<^verbatim>\<open>
  def move(self, rectangle, animate=None):
      if not animate:
          self.set_position(rectangle)
      else:
          try:
              window_mover = window_movers[animate]
          except KeyError:
              self.set_position(rectangle)
          else:
              window_mover.move_window(self, self.get_position(), rectangle)
  \<close>
  \<^verbatim>\<open>not animate\<close> holds of \<^verbatim>\<open>None\<close> and of the empty string.
\<close>

definition move ::
  "os \<Rightarrow> (string \<rightharpoonup> mover) \<Rightarrow> ref \<Rightarrow> Rectangle \<Rightarrow> string option \<Rightarrow> state \<Rightarrow> unit result" where
  "move os window_movers self rect animate st =
     (case animate of
        None \<Rightarrow> set_position os self rect st
      | Some name \<Rightarrow>
          (if name = [] then set_position os self rect st
           else
             (case window_movers name of
                None \<Rightarrow> set_position os self rect st
              | Some window_mover \<Rightarrow>
                  (case get_position os self st of
                     (Inl e, st1) \<Rightarrow> (Inl e, st1)
                   | (Inr origin, st1) \<Rightarrow> window_mover self origin rect st1))))"


subsection \<open>Sample inputs\<close>

text \<open>
  Concrete inputs on which the theorems below are evaluated: an operating system whose
  calls all return and which enumerates no window; a state holding one
  \<^verbatim>\<open>Win32Window\<close> with handle 5; a window mover that sets the origin and then the
  destination; an integer midpoint and a half-open containment test for the two parameters
  of \<open>get_containing_monitor\<close>; two monitors side by side.
\<close>

definition quiet_os :: os where
  "quiet_os =
     \<lparr>os_GetForegroundWindow = (\<lambda>log. Inr 0),
      os_EnumWindows = (\<lambda>log. ([], None)),
      os_GetWindowRect = (\<lambda>log h. Inr (0, 0, 0, 0)),
      os_IsIconic = (\<lambda>log h. Inr 0),
      os_ShowWindow = (\<lambda>log h state. Inr 0),
      os_SetForegroundWindow = (\<lambda>log h. Inr ()),
      os_MoveWindow = (\<lambda>log h l t w h' repaint. Inr ()),
      os_GetWindowThreadProcessId = (\<lambda>log h. Inr 0),
      os_OpenProcess = (\<lambda>log access inherit pid. Inr 0),
      os_QueryFullProcessImageNameW = (\<lambda>log handle. Inr []),
      os_GetModuleFileNameExW = (\<lambda>log handle. Inr []),
      os_CloseHandle = (\<lambda>log handle. Inr 1)\<rparr>"

definition one_window :: state where
  "one_window = snd (construct Win32Window (PyInt 5) initial_state)"

definition two_step_mover :: "os \<Rightarrow> mover" where
  "two_step_mover os window origin destination st =
     (case set_position os window origin st of
        (Inl e, st1) \<Rightarrow> (Inl e, st1)
      | (Inr u, st1) \<Rightarrow> set_position os window destination st1)"

definition midpoint :: "Rectangle \<Rightarrow> int \<times> int" where
  "midpoint r = (r_left r + r_width r div 2, r_top r + r_height r div 2)"

definition holds :: "Rectangle \<Rightarrow> int \<times> int \<Rightarrow> bool" where
  "holds r p =
     (r_left r \<le> fst p \<and> fst p < r_left r + r_width r
      \<and> r_top r \<le> snd p \<and> snd p < r_top r + r_height r)"

definition two_monitors :: "Monitor list" where
  "two_monitors =
     [\<lparr>m_handle = 1, rectangle = \<lparr>r_left = 0, r_top = 0, r_width = 800, r_height = 600\<rparr>\<rparr>,
      \<lparr>m_handle = 2, rectangle = \<lparr>r_left = 800, r_top = 0, r_width = 800, r_height = 600\<rparr>\<rparr>]"

text \<open>
  An operating system without \<^verbatim>\<open>QueryFullProcessImageNameW\<close>, where the older query
  writes a three-character path, and one that enumerates the handles 5 and 9 with 5 in the
  foreground.
\<close>

definition xp_os :: os where
  "xp_os =
     quiet_os\<lparr>os_OpenProcess := (\<lambda>log access inherit pid. Inr 77),
              os_QueryFullProcessImageNameW := (\<lambda>log handle. Inl (NativeError ''AttributeError'')),
              os_GetModuleFileNameExW := (\<lambda>log handle. Inr [0x61, 0x2E, 0x65])\<rparr>"

definition busy_os :: os where
  "busy_os =
     quiet_os\<lparr>os_EnumWindows := (\<lambda>log. ([5, 9], None)),
              os_GetForegroundWindow := (\<lambda>log. Inr 5)\<rparr>"

text \<open>
  \<^verbatim>\<open>ctypes\<close> converts an integer argument to a C \<^verbatim>\<open>long\<close>, 32 bits wide on Windows, and
  raises \<^verbatim>\<open>ArgumentError\<close> for an integer that fits neither the signed nor the unsigned
  range. \<open>c_long_os\<close> answers so to \<^verbatim>\<open>GetWindowThreadProcessId\<close>; \<open>wide_window\<close> holds one
  \<^verbatim>\<open>Win32Window\<close> whose handle is \<open>2 ^ 32\<close>.
\<close>

definition c_long_os :: os where
  "c_long_os =
     quiet_os\<lparr>os_GetWindowThreadProcessId :=
       (\<lambda>log h. if - 2147483648 \<le> dict_key h \<and> dict_key h < 4294967296 then Inr 0
                else Inl (NativeError ''ArgumentError''))\<rparr>"

definition wide_window :: state where
  "wide_window = snd (construct Win32Window (PyInt 4294967296) initial_state)"

section \<open>Properties\<close>

subsection \<open>Construction and the handle\<close>

lemma construct_integer:
  "isinstance_integer_types v \<Longrightarrow>
   construct c v st =
     (Inr (lim st),
      st\<lparr>objs := (objs st)(lim st := \<lparr>w_class = c, w_id = v, w_names = {||}\<rparr>),
         lim := Suc (lim st),
         windows_by_id := (windows_by_id st)(dict_key v \<mapsto> lim st)\<rparr>)"
  by (cases c) (simp_all add: construct_def new_object_def Win32Window_init_def BaseWindow_init_def
      id_setter_def set_id_def blank_def Let_def)

lemma construct_non_integer:
  "\<not> isinstance_integer_types v \<Longrightarrow>
   construct c v st =
     (Inl TypeError, st\<lparr>objs := (objs st)(lim st := blank c), lim := Suc (lim st)\<rparr>)"
  by (cases c) (simp_all add: construct_def new_object_def Win32Window_init_def BaseWindow_init_def
      id_setter_def set_id_def blank_def Let_def)

lemma one_window_eq:
  "one_window =
     \<lparr>objs = (\<lambda>r. blank BaseWindow)(0 := \<lparr>w_class = Win32Window, w_id = PyInt 5, w_names = {||}\<rparr>),
      lim = Suc 0, windows_by_id = [5 \<mapsto> 0], windows_by_name = Map.empty, calls = []\<rparr>"
  by (simp add: one_window_def construct_integer initial_state_def)

lemma one_window_simps:
  "objs one_window 0 = \<lparr>w_class = Win32Window, w_id = PyInt 5, w_names = {||}\<rparr>"
  "calls one_window = []" "lim one_window = Suc 0"
  "windows_by_id one_window = [5 \<mapsto> 0]"
  by (simp_all add: one_window_eq)

text \<open>
  The handle check of \<^verbatim>\<open>_set_id\<close> asks for an integer and nothing more: a negative
  handle is accepted, stored and registered.
\<close>

theorem negative_handle_accepted:
  "fst (construct Win32Window (PyInt (- 1)) initial_state) = Inr 0
   \<and> id_getter 0 (snd (construct Win32Window (PyInt (- 1)) initial_state)) = PyInt (- 1)
   \<and> windows_by_id (snd (construct Win32Window (PyInt (- 1)) initial_state)) (- 1) = Some 0
   \<and> \<not> (0::int) \<le> - 1"
  by (simp add: construct_integer initial_state_def id_getter_def)

text \<open>
  C1, as the code has it: a value of an integer type, of either sign, is accepted by
  \<^verbatim>\<open>_set_id\<close>, by the setters of \<^verbatim>\<open>id\<close> and \<^verbatim>\<open>handle\<close> and by the constructor; it is
  what the getter then returns, and the handle registry then maps it to the window, whatever
  the registry held for it before. Any other value makes each of the three raise
  \<^verbatim>\<open>TypeError\<close> at once: the setters leave the whole state as it was, and a failed
  construction leaves the registry and every existing object as they were.
\<close>

theorem set_id_integer_or_TypeError:
  "(isinstance_integer_types v \<longrightarrow>
      fst (set_id self v st) = Inr ()
      \<and> id_getter self (snd (set_id self v st)) = v
      \<and> windows_by_id (snd (set_id self v st)) (dict_key v) = Some self
      \<and> fst (id_setter self v st) = Inr ()
      \<and> id_getter self (snd (id_setter self v st)) = v
      \<and> windows_by_id (snd (id_setter self v st)) (dict_key v) = Some self
      \<and> fst (handle_setter self v st) = Inr ()
      \<and> handle_getter self (snd (handle_setter self v st)) = v
      \<and> windows_by_id (snd (handle_setter self v st)) (dict_key v) = Some self
      \<and> fst (construct c v st) = Inr (lim st)
      \<and> id_getter (lim st) (snd (construct c v st)) = v
      \<and> windows_by_id (snd (construct c v st)) (dict_key v) = Some (lim st))
   \<and> (\<not> isinstance_integer_types v \<longrightarrow>
      set_id self v st = (Inl TypeError, st)
      \<and> id_setter self v st = (Inl TypeError, st)
      \<and> handle_setter self v st = (Inl TypeError, st)
      \<and> fst (construct c v st) = Inl TypeError
      \<and> windows_by_id (snd (construct c v st)) = windows_by_id st
      \<and> (\<forall>r. r < lim st \<longrightarrow> objs (snd (construct c v st)) r = objs st r))"
  by (simp add: construct_integer construct_non_integer id_setter_def handle_setter_def
      set_id_def id_getter_def handle_getter_def)

theorem set_id_integer_or_TypeError_witness:
  "\<not> isinstance_integer_types (PyStr ''abc'') \<and> isinstance_integer_types (PyInt (- 7))
   \<and> windows_by_id one_window (- 7) = None
   \<and> fst (handle_setter 0 (PyInt (- 7)) one_window) = Inr ()
   \<and> handle_getter 0 (snd (handle_setter 0 (PyInt (- 7)) one_window)) = PyInt (- 7)
   \<and> windows_by_id (snd (handle_setter 0 (PyInt (- 7)) one_window)) (- 7) = Some 0
   \<and> windows_by_id (snd (id_setter 0 (PyInt (- 7)) one_window)) (- 7) = Some 0
   \<and> windows_by_id (snd (construct Win32Window (PyInt (- 7)) one_window)) (- 7) = Some 1
   \<and> handle_setter 0 (PyStr ''abc'') one_window = (Inl TypeError, one_window)
   \<and> id_getter 0 (snd (handle_setter 0 (PyStr ''abc'') one_window)) = PyInt 5
   \<and> fst (construct Win32Window (PyStr ''abc'') one_window) = Inl TypeError
   \<and> (0::nat) < lim one_window
   \<and> objs (snd (construct Win32Window (PyStr ''abc'') one_window)) 0 = objs one_window 0"
  using set_id_integer_or_TypeError [of "PyInt (- 7)" 0 one_window Win32Window]
    set_id_integer_or_TypeError [of "PyStr ''abc''" 0 one_window Win32Window]
  by (simp add: one_window_simps id_getter_def)

text \<open>
  C2: constructing a window with an integer handle \<open>h\<close> succeeds, and both \<^verbatim>\<open>id\<close> and
  \<^verbatim>\<open>handle\<close> of the new window read \<open>h\<close>; constructing with a value that is not of an
  integer type raises \<^verbatim>\<open>TypeError\<close>.
\<close>

theorem construct_id_roundtrip:
  "fst (construct c (PyInt h) st) = Inr (lim st)
   \<and> id_getter (lim st) (snd (construct c (PyInt h) st)) = PyInt h
   \<and> handle_getter (lim st) (snd (construct c (PyInt h) st)) = PyInt h
   \<and> (\<not> isinstance_integer_types v \<longrightarrow> fst (construct c v st) = Inl TypeError)"
  by (simp add: construct_integer construct_non_integer id_getter_def handle_getter_def)

theorem construct_id_roundtrip_witness:
  "\<not> isinstance_integer_types PyNone
   \<and> fst (construct Win32Window PyNone initial_state) = Inl TypeError
   \<and> fst (construct Win32Window (PyInt 42) initial_state) = Inr 0
   \<and> id_getter 0 (snd (construct Win32Window (PyInt 42) initial_state)) = PyInt 42"
  using construct_id_roundtrip [of Win32Window 42 initial_state PyNone]
  by (simp add: initial_state_def)

subsection \<open>Moving\<close>

text \<open>
  C3: \<^verbatim>\<open>move(rectangle, animate=None)\<close> is \<^verbatim>\<open>set_position(rectangle)\<close>, and so is
  \<^verbatim>\<open>move(rectangle, animate=name)\<close> for every name that the window-mover registry does
  not hold: same outcome, same state, and no error beyond what \<^verbatim>\<open>set_position\<close> raises.
\<close>

theorem move_without_animator_is_set_position:
  "move os window_movers self rect None st = set_position os self rect st
   \<and> (window_movers name = None \<longrightarrow>
        move os window_movers self rect (Some name) st = set_position os self rect st)"
  by (simp add: move_def)

theorem move_without_animator_is_set_position_witness:
  "[''spline'' \<mapsto> two_step_mover quiet_os] ''slide'' = None
   \<and> move quiet_os [''spline'' \<mapsto> two_step_mover quiet_os] 0
        \<lparr>r_left = 1, r_top = 2, r_width = 3, r_height = 4\<rparr> (Some ''slide'') one_window
      = set_position quiet_os 0 \<lparr>r_left = 1, r_top = 2, r_width = 3, r_height = 4\<rparr> one_window
   \<and> fst (set_position quiet_os 0 \<lparr>r_left = 1, r_top = 2, r_width = 3, r_height = 4\<rparr> one_window)
      = Inr ()
   \<and> calls (snd (set_position quiet_os 0 \<lparr>r_left = 1, r_top = 2, r_width = 3, r_height = 4\<rparr> one_window))
      = [MoveWindow (PyInt 5) 1 2 3 4 1]"
  using move_without_animator_is_set_position [of quiet_os "[''spline'' \<mapsto> two_step_mover quiet_os]" 0
      "\<lparr>r_left = 1, r_top = 2, r_width = 3, r_height = 4\<rparr>" one_window "''slide''"]
  by (simp add: one_window_eq set_position_def Win32Window_set_position_def ltwh_def native_def
      quiet_os_def)

text \<open>
  \<^verbatim>\<open>not animate\<close> holds of the empty string: a mover registered under the empty name is
  never called. Here \<^verbatim>\<open>move\<close> issues the one \<^verbatim>\<open>MoveWindow\<close> of \<^verbatim>\<open>set_position\<close> and does
  not read the position, where the registered mover would have issued two.
\<close>

theorem move_empty_name_skips_animator:
  "[[] \<mapsto> two_step_mover quiet_os] [] = Some (two_step_mover quiet_os)
   \<and> move quiet_os [[] \<mapsto> two_step_mover quiet_os] 0
        \<lparr>r_left = 1, r_top = 2, r_width = 3, r_height = 4\<rparr> (Some []) one_window
      = set_position quiet_os 0 \<lparr>r_left = 1, r_top = 2, r_width = 3, r_height = 4\<rparr> one_window
   \<and> calls (snd (move quiet_os [[] \<mapsto> two_step_mover quiet_os] 0
        \<lparr>r_left = 1, r_top = 2, r_width = 3, r_height = 4\<rparr> (Some []) one_window))
      = [MoveWindow (PyInt 5) 1 2 3 4 1]
   \<and> calls (snd (two_step_mover quiet_os 0 \<lparr>r_left = 0, r_top = 0, r_width = 0, r_height = 0\<rparr>
        \<lparr>r_left = 1, r_top = 2, r_width = 3, r_height = 4\<rparr>
        (snd (get_position quiet_os 0 one_window))))
      = [GetWindowRect (PyInt 5), MoveWindow (PyInt 5) 0 0 0 0 1, MoveWindow (PyInt 5) 1 2 3 4 1]"
  by (simp add: move_def one_window_eq set_position_def Win32Window_set_position_def ltwh_def
      native_def quiet_os_def two_step_mover_def get_position_def Win32Window_get_position_def)

text \<open>
  C4, as the code has it: for a non-empty name that the registry holds, \<^verbatim>\<open>move\<close> reads
  the position with \<^verbatim>\<open>get_position\<close>; when that returns, \<^verbatim>\<open>move\<close> is the registered
  mover's \<^verbatim>\<open>move_window\<close> on the window, that position and the target, started in a state
  to which no \<^verbatim>\<open>MoveWindow\<close> has been added; when \<^verbatim>\<open>get_position\<close> raises, \<^verbatim>\<open>move\<close>
  raises the same exception. For the empty name \<^verbatim>\<open>move\<close> is \<^verbatim>\<open>set_position\<close>, whatever the
  registry holds under it.
\<close>

theorem move_delegates_to_animator:
  "move os window_movers self rect (Some []) st = set_position os self rect st
   \<and> (name \<noteq> [] \<and> window_movers name = Some window_mover \<longrightarrow>
        (\<forall>origin st1. get_position os self st = (Inr origin, st1) \<longrightarrow>
            move os window_movers self rect (Some name) st = window_mover self origin rect st1
            \<and> (\<forall>l t w h b. MoveWindow (w_id (objs st self)) l t w h b
                  \<notin> set (drop (length (calls st)) (calls st1))))
        \<and> (\<forall>e st1. get_position os self st = (Inl e, st1) \<longrightarrow>
            move os window_movers self rect (Some name) st = (Inl e, st1)))"
proof (intro conjI impI)
  show "move os window_movers self rect (Some []) st = set_position os self rect st"
    by (simp add: move_def)
next
  assume "name \<noteq> [] \<and> window_movers name = Some window_mover"
  then show "\<forall>origin st1. get_position os self st = (Inr origin, st1) \<longrightarrow>
      move os window_movers self rect (Some name) st = window_mover self origin rect st1
      \<and> (\<forall>l t w h b. MoveWindow (w_id (objs st self)) l t w h b
            \<notin> set (drop (length (calls st)) (calls st1)))"
    by (auto simp: move_def get_position_def BaseWindow_get_position_def
        Win32Window_get_position_def native_def split: cls.splits sum.splits prod.splits)
next
  assume "name \<noteq> [] \<and> window_movers name = Some window_mover"
  then show "\<forall>e st1. get_position os self st = (Inl e, st1) \<longrightarrow>
      move os window_movers self rect (Some name) st = (Inl e, st1)"
    by (simp add: move_def)
qed

theorem move_delegates_to_animator_witness:
  "''spline'' \<noteq> []
   \<and> [''spline'' \<mapsto> two_step_mover quiet_os, [] \<mapsto> two_step_mover quiet_os] ''spline''
       = Some (two_step_mover quiet_os)
   \<and> [''spline'' \<mapsto> two_step_mover quiet_os, [] \<mapsto> two_step_mover quiet_os] []
       = Some (two_step_mover quiet_os)
   \<and> fst (get_position quiet_os 0 one_window) = Inr \<lparr>r_left = 0, r_top = 0, r_width = 0, r_height = 0\<rparr>
   \<and> calls (snd (move quiet_os [''spline'' \<mapsto> two_step_mover quiet_os, [] \<mapsto> two_step_mover quiet_os] 0
        \<lparr>r_left = 1, r_top = 2, r_width = 3, r_height = 4\<rparr> (Some ''spline'') one_window))
      = [GetWindowRect (PyInt 5), MoveWindow (PyInt 5) 0 0 0 0 1, MoveWindow (PyInt 5) 1 2 3 4 1]
   \<and> calls (snd (move quiet_os [''spline'' \<mapsto> two_step_mover quiet_os, [] \<mapsto> two_step_mover quiet_os] 0
        \<lparr>r_left = 1, r_top = 2, r_width = 3, r_height = 4\<rparr> (Some []) one_window))
      = [MoveWindow (PyInt 5) 1 2 3 4 1]"
  using move_delegates_to_animator [of quiet_os
      "[''spline'' \<mapsto> two_step_mover quiet_os, [] \<mapsto> two_step_mover quiet_os]" 0
      "\<lparr>r_left = 1, r_top = 2, r_width = 3, r_height = 4\<rparr>" one_window
      "''spline''" "two_step_mover quiet_os"]
  by (simp add: one_window_simps set_position_def Win32Window_set_position_def ltwh_def
      native_def quiet_os_def two_step_mover_def get_position_def Win32Window_get_position_def)

subsection \<open>The containing monitor\<close>

lemma first_containing_None:
  "first_containing contains c ms = None \<longleftrightarrow> (\<forall>m \<in> set ms. \<not> contains (rectangle m) c)"
  by (induction ms) auto

lemma first_containing_Some:
  "first_containing contains c ms = Some m \<longleftrightarrow>
     (\<exists>i < length ms. ms ! i = m \<and> contains (rectangle m) c
        \<and> (\<forall>j < i. \<not> contains (rectangle (ms ! j)) c))"
proof (induction ms)
  case Nil
  then show ?case by simp
next
  case (Cons a ms)
  show ?case
  proof (cases "contains (rectangle a) c")
    case True
    have "(\<exists>i < length (a # ms). (a # ms) ! i = m \<and> contains (rectangle m) c
        \<and> (\<forall>j < i. \<not> contains (rectangle ((a # ms) ! j)) c)) \<longleftrightarrow> a = m"
    proof
      assume "\<exists>i < length (a # ms). (a # ms) ! i = m \<and> contains (rectangle m) c
        \<and> (\<forall>j < i. \<not> contains (rectangle ((a # ms) ! j)) c)"
      then obtain i where i: "i < length (a # ms)" "(a # ms) ! i = m"
        "\<forall>j < i. \<not> contains (rectangle ((a # ms) ! j)) c" by blast
      have "i = 0"
      proof (rule ccontr)
        assume "i \<noteq> 0"
        then have "0 < i" by simp
        with i(3) have "\<not> contains (rectangle ((a # ms) ! 0)) c" by blast
        with True show False by simp
      qed
      with i(2) show "a = m" by simp
    next
      assume "a = m"
      with True show "\<exists>i < length (a # ms). (a # ms) ! i = m \<and> contains (rectangle m) c
        \<and> (\<forall>j < i. \<not> contains (rectangle ((a # ms) ! j)) c)"
        by (intro exI [of _ 0]) simp
    qed
    with True show ?thesis by simp
  next
    case False
    have "(\<exists>i < length (a # ms). (a # ms) ! i = m \<and> contains (rectangle m) c
        \<and> (\<forall>j < i. \<not> contains (rectangle ((a # ms) ! j)) c))
      \<longleftrightarrow> (\<exists>i < length ms. ms ! i = m \<and> contains (rectangle m) c
        \<and> (\<forall>j < i. \<not> contains (rectangle (ms ! j)) c))" (is "?L \<longleftrightarrow> ?R")
    proof
      assume ?L
      then obtain i where i: "i < length (a # ms)" "(a # ms) ! i = m" "contains (rectangle m) c"
        "\<forall>j < i. \<not> contains (rectangle ((a # ms) ! j)) c" by blast
      from False i(2,3) have "i \<noteq> 0" by (cases i) auto
      then obtain k where k: "i = Suc k" by (cases i) auto
      have "\<forall>j < k. \<not> contains (rectangle (ms ! j)) c"
      proof (intro allI impI)
        fix j assume "j < k"
        then have "Suc j < i" using k by simp
        with i(4) have "\<not> contains (rectangle ((a # ms) ! Suc j)) c" by blast
        then show "\<not> contains (rectangle (ms ! j)) c" by simp
      qed
      with i k show ?R by (intro exI [of _ k]) simp
    next
      assume ?R
      then obtain k where k: "k < length ms" "ms ! k = m" "contains (rectangle m) c"
        "\<forall>j < k. \<not> contains (rectangle (ms ! j)) c" by blast
      have "\<forall>j < Suc k. \<not> contains (rectangle ((a # ms) ! j)) c"
      proof (intro allI impI)
        fix j assume "j < Suc k"
        then show "\<not> contains (rectangle ((a # ms) ! j)) c"
          using False k(4) by (cases j) auto
      qed
      with k show ?L by (intro exI [of _ "Suc k"]) simp
    qed
    with False Cons.IH show ?thesis by simp
  qed
qed

text \<open>
  With an empty list of monitors the loop falls through and \<^verbatim>\<open>monitors[0]\<close> raises
  \<^verbatim>\<open>IndexError\<close>.
\<close>

theorem get_containing_monitor_no_monitors:
  "fst (get_position quiet_os 0 one_window) = Inr \<lparr>r_left = 0, r_top = 0, r_width = 0, r_height = 0\<rparr>
   \<and> fst (get_containing_monitor midpoint holds [] quiet_os 0 one_window) = Inl IndexError"
  by (simp add: get_containing_monitor_def get_position_def Win32Window_get_position_def
      native_def quiet_os_def one_window_eq)

text \<open>
  C5, as the code has it: when the window's position can be read and the list of monitors
  is not empty, \<^verbatim>\<open>get_containing_monitor\<close> returns the first monitor of the list whose
  rectangle contains the center of the position, and the first monitor of the list when
  none does. With an empty list of monitors it raises \<^verbatim>\<open>IndexError\<close>, and when the
  position cannot be read it raises what \<^verbatim>\<open>get_position\<close> raised.
\<close>

theorem get_containing_monitor_first_or_fallback:
  "(get_position os self st = (Inr position, st1) \<longrightarrow>
      (monitors = [] \<longrightarrow>
         get_containing_monitor center contains monitors os self st = (Inl IndexError, st1))
      \<and> (\<forall>i < length monitors.
            contains (rectangle (monitors ! i)) (center position)
            \<and> (\<forall>j < i. \<not> contains (rectangle (monitors ! j)) (center position))
            \<longrightarrow> get_containing_monitor center contains monitors os self st
                  = (Inr (monitors ! i), st1))
      \<and> (monitors \<noteq> [] \<and> (\<forall>m \<in> set monitors. \<not> contains (rectangle m) (center position))
            \<longrightarrow> get_containing_monitor center contains monitors os self st
                  = (Inr (monitors ! 0), st1)))
   \<and> (get_position os self st = (Inl e, st1) \<longrightarrow>
      get_containing_monitor center contains monitors os self st = (Inl e, st1))"
proof (intro conjI allI impI)
  assume "get_position os self st = (Inr position, st1)" and "monitors = []"
  then show "get_containing_monitor center contains monitors os self st = (Inl IndexError, st1)"
    by (simp add: get_containing_monitor_def)
next
  fix i
  assume pos: "get_position os self st = (Inr position, st1)"
    and i: "i < length monitors"
    and "contains (rectangle (monitors ! i)) (center position)
         \<and> (\<forall>j < i. \<not> contains (rectangle (monitors ! j)) (center position))"
  then have "first_containing contains (center position) monitors = Some (monitors ! i)"
    unfolding first_containing_Some by blast
  with pos show "get_containing_monitor center contains monitors os self st
      = (Inr (monitors ! i), st1)"
    by (simp add: get_containing_monitor_def)
next
  assume pos: "get_position os self st = (Inr position, st1)"
    and none: "monitors \<noteq> [] \<and> (\<forall>m \<in> set monitors. \<not> contains (rectangle m) (center position))"
  then have "first_containing contains (center position) monitors = None"
    by (simp add: first_containing_None)
  with pos none show "get_containing_monitor center contains monitors os self st
      = (Inr (monitors ! 0), st1)"
    by (cases monitors) (simp_all add: get_containing_monitor_def)
next
  assume "get_position os self st = (Inl e, st1)"
  then show "get_containing_monitor center contains monitors os self st = (Inl e, st1)"
    by (simp add: get_containing_monitor_def)
qed

theorem get_containing_monitor_first_or_fallback_witness:
  "get_position (quiet_os\<lparr>os_GetWindowRect := (\<lambda>log h. Inr (900, 100, 1100, 300))\<rparr>) 0 one_window
     = (Inr \<lparr>r_left = 900, r_top = 100, r_width = 200, r_height = 200\<rparr>,
        one_window\<lparr>calls := [GetWindowRect (PyInt 5)]\<rparr>)
   \<and> two_monitors \<noteq> []
   \<and> holds (rectangle (two_monitors ! 1)) (midpoint \<lparr>r_left = 900, r_top = 100, r_width = 200, r_height = 200\<rparr>)
   \<and> \<not> holds (rectangle (two_monitors ! 0)) (midpoint \<lparr>r_left = 900, r_top = 100, r_width = 200, r_height = 200\<rparr>)
   \<and> get_containing_monitor midpoint holds two_monitors
        (quiet_os\<lparr>os_GetWindowRect := (\<lambda>log h. Inr (900, 100, 1100, 300))\<rparr>) 0 one_window
     = (Inr \<lparr>m_handle = 2, rectangle = \<lparr>r_left = 800, r_top = 0, r_width = 800, r_height = 600\<rparr>\<rparr>,
        one_window\<lparr>calls := [GetWindowRect (PyInt 5)]\<rparr>)"
proof -
  let ?os = "quiet_os\<lparr>os_GetWindowRect := (\<lambda>log h. Inr (900, 100, 1100, 300))\<rparr>"
  let ?pos = "\<lparr>r_left = 900, r_top = 100, r_width = 200, r_height = 200\<rparr>"
  have pos: "get_position ?os 0 one_window = (Inr ?pos, one_window\<lparr>calls := [GetWindowRect (PyInt 5)]\<rparr>)"
    by (simp add: get_position_def Win32Window_get_position_def native_def one_window_simps)
  have ne: "two_monitors \<noteq> []"
    by (simp add: two_monitors_def)
  have in1: "holds (rectangle (two_monitors ! 1)) (midpoint ?pos)"
    by (simp add: two_monitors_def holds_def midpoint_def)
  have out0: "\<not> holds (rectangle (two_monitors ! 0)) (midpoint ?pos)"
    by (simp add: two_monitors_def holds_def midpoint_def)
  have first: "\<forall>j < 1. \<not> holds (rectangle (two_monitors ! j)) (midpoint ?pos)"
    using out0 by simp
  have len: "1 < length two_monitors"
    by (simp add: two_monitors_def)
  from get_containing_monitor_first_or_fallback
    [of ?os 0 one_window ?pos "one_window\<lparr>calls := [GetWindowRect (PyInt 5)]\<rparr>"
       two_monitors midpoint holds]
    pos len in1 first
  have "get_containing_monitor midpoint holds two_monitors ?os 0 one_window
      = (Inr (two_monitors ! 1), one_window\<lparr>calls := [GetWindowRect (PyInt 5)]\<rparr>)"
    by blast
  then have "get_containing_monitor midpoint holds two_monitors ?os 0 one_window
      = (Inr \<lparr>m_handle = 2, rectangle = \<lparr>r_left = 800, r_top = 0, r_width = 800, r_height = 600\<rparr>\<rparr>,
         one_window\<lparr>calls := [GetWindowRect (PyInt 5)]\<rparr>)"
    by (simp add: two_monitors_def)
  with pos ne in1 out0 show ?thesis by blast
qed

subsection \<open>The foreground\<close>

lemma is_minimized_eq:
  "is_minimized os self st =
     (case os_IsIconic os (calls st) (w_id (objs st self)) of
        Inl e \<Rightarrow> Inl e | Inr r \<Rightarrow> Inr (r \<noteq> 0),
      st\<lparr>calls := calls st @ [IsIconic (w_id (objs st self))]\<rparr>)"
  by (simp add: is_minimized_def native_def split: sum.splits)

text \<open>
  C6: the native calls of \<^verbatim>\<open>set_foreground\<close>, in order. After the \<^verbatim>\<open>IsIconic\<close> test, a
  minimized window gets \<^verbatim>\<open>ShowWindow(handle, SW_RESTORE)\<close> and then, once that has
  returned, \<^verbatim>\<open>SetForegroundWindow\<close>; a window that is not minimized gets
  \<^verbatim>\<open>SetForegroundWindow\<close> alone.
\<close>

theorem set_foreground_calls:
  "calls (snd (set_foreground os self st)) =
     calls st @ IsIconic (w_id (objs st self)) #
       (case os_IsIconic os (calls st) (w_id (objs st self)) of
          Inl e \<Rightarrow> []
        | Inr r \<Rightarrow>
            if r \<noteq> 0 then
              ShowWindow (w_id (objs st self)) SW_RESTORE #
                (case os_ShowWindow os (calls st @ [IsIconic (w_id (objs st self))])
                        (w_id (objs st self)) SW_RESTORE of
                   Inl e \<Rightarrow> []
                 | Inr x \<Rightarrow> [SetForegroundWindow (w_id (objs st self))])
            else [SetForegroundWindow (w_id (objs st self))])"
  by (simp add: set_foreground_def is_minimized_eq restore_def win32gui_show_window_def
      win32_set_foreground_def native_def split: sum.splits)

theorem set_foreground_calls_witness:
  "calls (snd (set_foreground (quiet_os\<lparr>os_IsIconic := (\<lambda>log h. Inr 1)\<rparr>) 0 one_window))
     = [IsIconic (PyInt 5), ShowWindow (PyInt 5) 9, SetForegroundWindow (PyInt 5)]
   \<and> calls (snd (set_foreground quiet_os 0 one_window))
     = [IsIconic (PyInt 5), SetForegroundWindow (PyInt 5)]"
  using set_foreground_calls [of "quiet_os\<lparr>os_IsIconic := (\<lambda>log h. Inr 1)\<rparr>" 0 one_window]
    set_foreground_calls [of quiet_os 0 one_window]
  by (simp add: one_window_simps quiet_os_def SW_RESTORE_def)

subsection \<open>The executable path\<close>

lemma query_modern_calls:
  "calls (snd (query_modern os handle st)) = calls st @ [QueryFullProcessImageNameW handle]"
  by (simp add: query_modern_def native_def split: sum.splits)

lemma query_legacy_calls:
  "calls (snd (query_legacy os handle st)) = calls st @ [GetModuleFileNameExW handle]"
  by (simp add: query_legacy_def native_def split: sum.splits)

lemma try_query_calls:
  "calls (snd (try_except (query_modern os handle) (query_legacy os handle) st)) =
     calls st @ QueryFullProcessImageNameW handle #
       (case fst (query_modern os handle st) of
          Inl e \<Rightarrow> [GetModuleFileNameExW handle] | Inr buffer \<Rightarrow> [])"
proof (cases "query_modern os handle st")
  case (Pair r st1)
  have c: "calls st1 = calls st @ [QueryFullProcessImageNameW handle]"
    using query_modern_calls [of os handle st] Pair by simp
  show ?thesis
  proof (cases r)
    case (Inl e)
    with Pair c show ?thesis
      by (simp add: try_except_def query_legacy_calls)
  next
    case (Inr b)
    with Pair c show ?thesis
      by (simp add: try_except_def)
  qed
qed

lemma try_finally_calls:
  "calls (snd (try_finally body (close_handle os handle) st)) =
     calls (snd (body st)) @ [CloseHandle handle]"
  by (cases "body st")
     (simp add: try_finally_def close_handle_def native_def split: sum.splits)

lemma get_window_module_opened:
  assumes "os_GetWindowThreadProcessId os (calls st) (w_id (objs st self)) = Inr pid"
    and "os_OpenProcess os (calls st @ [GetWindowThreadProcessId (w_id (objs st self))]) 0x0410 0 pid
           = Inr handle"
  shows "get_window_module os self st =
     try_finally (try_except (query_modern os handle) (query_legacy os handle))
       (close_handle os handle)
       (st\<lparr>calls := calls st @ [GetWindowThreadProcessId (w_id (objs st self)),
                                OpenProcess 0x0410 0 pid]\<rparr>)"
  using assms by (simp add: get_window_module_def native_def)

lemma close_handle_returns:
  "\<forall>log. \<exists>c. os_CloseHandle os log handle = Inr c \<Longrightarrow>
   fst (try_finally body (close_handle os handle) st) = fst (body st)"
proof -
  assume a: "\<forall>log. \<exists>c. os_CloseHandle os log handle = Inr c"
  obtain r st1 where b: "body st = (r, st1)" by (cases "body st")
  from a obtain c where "os_CloseHandle os (calls st1) handle = Inr c" by blast
  with b show ?thesis
    by (simp add: try_finally_def close_handle_def native_def)
qed

lemma until_nul_c_wchar_array:
  assumes "0 \<notin> set written" and "length written < n"
  shows "until_nul (c_wchar_array n written) = Inr written"
proof -
  have a: "c_wchar_array n written = written @ replicate (n - length written) 0"
    using assms(2) by (simp add: c_wchar_array_def)
  have b: "0 < n - length written"
    using assms(2) by simp
  have c: "takeWhile (\<lambda>c. c \<noteq> 0) (written @ replicate (n - length written) 0) = written"
  proof -
    have "takeWhile (\<lambda>c. c \<noteq> 0) (written @ replicate (n - length written) 0)
        = written @ takeWhile (\<lambda>c. c \<noteq> 0) (replicate (n - length written) (0::wchar))"
      using assms(1) by (intro takeWhile_append2) auto
    also have "takeWhile (\<lambda>c. c \<noteq> 0) (replicate (n - length written) (0::wchar)) = []"
      using b by (cases "n - length written") simp_all
    finally show ?thesis by simp
  qed
  from a b c show ?thesis
    by (simp add: until_nul_def)
qed

text \<open>
  C7: once \<^verbatim>\<open>OpenProcess\<close> has returned a handle, the last native call of
  \<^verbatim>\<open>_get_window_module\<close> is \<^verbatim>\<open>CloseHandle\<close> on that handle, whatever the outcome: after
  the modern query alone, or after the modern query followed by the legacy one, whether
  that one returned or raised.
\<close>

theorem get_window_module_closes_handle:
  assumes "os_GetWindowThreadProcessId os (calls st) (w_id (objs st self)) = Inr pid"
    and "os_OpenProcess os (calls st @ [GetWindowThreadProcessId (w_id (objs st self))]) 0x0410 0 pid
           = Inr handle"
  shows "\<exists>queries.
           calls (snd (get_window_module os self st)) =
             calls st @ [GetWindowThreadProcessId (w_id (objs st self)), OpenProcess 0x0410 0 pid]
               @ queries @ [CloseHandle handle]
           \<and> (queries = [QueryFullProcessImageNameW handle]
                \<or> queries = [QueryFullProcessImageNameW handle, GetModuleFileNameExW handle])"
proof -
  let ?st2 = "st\<lparr>calls := calls st @ [GetWindowThreadProcessId (w_id (objs st self)),
                                       OpenProcess 0x0410 0 pid]\<rparr>"
  let ?queries = "QueryFullProcessImageNameW handle #
       (case fst (query_modern os handle ?st2) of
          Inl e \<Rightarrow> [GetModuleFileNameExW handle] | Inr buffer \<Rightarrow> [])"
  have "calls (snd (get_window_module os self st)) =
      calls ?st2 @ ?queries @ [CloseHandle handle]"
    by (simp add: get_window_module_opened [OF assms] try_finally_calls try_query_calls)
  moreover have "?queries = [QueryFullProcessImageNameW handle]
      \<or> ?queries = [QueryFullProcessImageNameW handle, GetModuleFileNameExW handle]"
    by (simp split: sum.splits)
  ultimately show ?thesis
    by (intro exI [of _ ?queries]) simp
qed

theorem get_window_module_closes_handle_witness:
  "os_GetWindowThreadProcessId
       (quiet_os\<lparr>os_QueryFullProcessImageNameW := (\<lambda>log handle. Inl (NativeError ''AttributeError'')),
                 os_OpenProcess := (\<lambda>log access inherit pid. Inr 77)\<rparr>)
       (calls one_window) (w_id (objs one_window 0)) = Inr 0
   \<and> os_OpenProcess
       (quiet_os\<lparr>os_QueryFullProcessImageNameW := (\<lambda>log handle. Inl (NativeError ''AttributeError'')),
                 os_OpenProcess := (\<lambda>log access inherit pid. Inr 77)\<rparr>)
       (calls one_window @ [GetWindowThreadProcessId (w_id (objs one_window 0))]) 0x0410 0 0 = Inr 77
   \<and> (\<exists>queries.
         calls (snd (get_window_module
           (quiet_os\<lparr>os_QueryFullProcessImageNameW := (\<lambda>log handle. Inl (NativeError ''AttributeError'')),
                     os_OpenProcess := (\<lambda>log access inherit pid. Inr 77)\<rparr>) 0 one_window))
         = [GetWindowThreadProcessId (PyInt 5), OpenProcess 0x0410 0 0] @ queries @ [CloseHandle 77]
         \<and> (queries = [QueryFullProcessImageNameW 77]
              \<or> queries = [QueryFullProcessImageNameW 77, GetModuleFileNameExW 77]))"
proof -
  let ?os = "quiet_os\<lparr>os_QueryFullProcessImageNameW := (\<lambda>log handle. Inl (NativeError ''AttributeError'')),
                 os_OpenProcess := (\<lambda>log access inherit pid. Inr 77)\<rparr>"
  have pid: "os_GetWindowThreadProcessId ?os (calls one_window) (w_id (objs one_window 0)) = Inr 0"
    by (simp add: quiet_os_def)
  have opened: "os_OpenProcess ?os
      (calls one_window @ [GetWindowThreadProcessId (w_id (objs one_window 0))]) 0x0410 0 0 = Inr 77"
    by simp
  from get_window_module_closes_handle [OF pid opened] pid opened show ?thesis
    by (simp add: one_window_simps)
qed

text \<open>
  The calls before the \<^verbatim>\<open>try\<close> are not guarded: when \<^verbatim>\<open>GetWindowThreadProcessId\<close>
  raises, as it does for a handle of \<open>2 ^ 32\<close>, the lookup raises, and neither query has
  been called.
\<close>

theorem get_window_module_raises_before_query:
  "fst (get_window_module c_long_os 0 wide_window) = Inl (NativeError ''ArgumentError'')
   \<and> calls (snd (get_window_module c_long_os 0 wide_window))
       = [GetWindowThreadProcessId (PyInt 4294967296)]"
  by (simp add: get_window_module_def native_def wide_window_def construct_integer
      initial_state_def c_long_os_def)

text \<open>
  C8, as the code has it: when the process identifier query, \<^verbatim>\<open>OpenProcess\<close> and
  \<^verbatim>\<open>CloseHandle\<close> return, an exception of the modern query, or of the treatment of its
  buffer, is dropped and the outcome of the lookup is the outcome of the legacy query; a
  modern query that returns decides the outcome alone; and the lookup raises exactly when
  the modern query raised and the legacy query then raised too.
\<close>

theorem get_window_module_fallback:
  assumes "os_GetWindowThreadProcessId os (calls st) (w_id (objs st self)) = Inr pid"
    and "os_OpenProcess os (calls st @ [GetWindowThreadProcessId (w_id (objs st self))]) 0x0410 0 pid
           = Inr handle"
    and "\<forall>log. \<exists>c. os_CloseHandle os log handle = Inr c"
    and "st2 = st\<lparr>calls := calls st @ [GetWindowThreadProcessId (w_id (objs st self)),
                                        OpenProcess 0x0410 0 pid]\<rparr>"
  shows "(\<forall>e st3. query_modern os handle st2 = (Inl e, st3) \<longrightarrow>
            fst (get_window_module os self st) = fst (query_legacy os handle st3))
         \<and> (\<forall>buffer st3. query_modern os handle st2 = (Inr buffer, st3) \<longrightarrow>
            fst (get_window_module os self st) = Inr buffer)
         \<and> ((\<exists>e. fst (get_window_module os self st) = Inl e) \<longleftrightarrow>
            (\<exists>e st3 e'. query_modern os handle st2 = (Inl e, st3)
               \<and> fst (query_legacy os handle st3) = Inl e'))"
proof -
  have eq: "fst (get_window_module os self st)
      = fst (try_except (query_modern os handle) (query_legacy os handle) st2)"
    using get_window_module_opened [OF assms(1,2)] close_handle_returns [OF assms(3)] assms(4)
    by simp
  show ?thesis
  proof (cases "query_modern os handle st2")
    case (Pair r st3)
    then show ?thesis
      by (cases r) (simp_all add: eq try_except_def)
  qed
qed

theorem get_window_module_fallback_witness:
  "os_GetWindowThreadProcessId xp_os (calls one_window) (w_id (objs one_window 0)) = Inr 0
   \<and> os_OpenProcess xp_os (calls one_window @ [GetWindowThreadProcessId (w_id (objs one_window 0))])
        0x0410 0 0 = Inr 77
   \<and> (\<forall>log. \<exists>c. os_CloseHandle xp_os log 77 = Inr c)
   \<and> query_modern xp_os 77
        (one_window\<lparr>calls := [GetWindowThreadProcessId (PyInt 5), OpenProcess 0x0410 0 0]\<rparr>)
      = (Inl (NativeError ''AttributeError''),
         one_window\<lparr>calls := [GetWindowThreadProcessId (PyInt 5), OpenProcess 0x0410 0 0,
                               QueryFullProcessImageNameW 77]\<rparr>)
   \<and> fst (get_window_module xp_os 0 one_window) = Inr [0x61, 0x2E, 0x65]"
proof -
  let ?st2 = "one_window\<lparr>calls := calls one_window @
      [GetWindowThreadProcessId (w_id (objs one_window 0)), OpenProcess 0x0410 0 0]\<rparr>"
  let ?st3 = "one_window\<lparr>calls := [GetWindowThreadProcessId (PyInt 5), OpenProcess 0x0410 0 0,
                               QueryFullProcessImageNameW 77]\<rparr>"
  have pid: "os_GetWindowThreadProcessId xp_os (calls one_window) (w_id (objs one_window 0)) = Inr 0"
    by (simp add: xp_os_def quiet_os_def)
  have opened: "os_OpenProcess xp_os
      (calls one_window @ [GetWindowThreadProcessId (w_id (objs one_window 0))]) 0x0410 0 0 = Inr 77"
    by (simp add: xp_os_def)
  have closes: "\<forall>log. \<exists>c. os_CloseHandle xp_os log 77 = Inr c"
    by (simp add: xp_os_def quiet_os_def)
  have modern: "query_modern xp_os 77 ?st2 = (Inl (NativeError ''AttributeError''), ?st3)"
    by (simp add: query_modern_def native_def xp_os_def one_window_simps)
  have legacy: "fst (query_legacy xp_os 77 ?st3) = Inr [0x61, 0x2E, 0x65]"
    by (simp add: query_legacy_def native_def xp_os_def until_nul_c_wchar_array)
  from get_window_module_fallback [OF pid opened closes refl] modern legacy
  have "fst (get_window_module xp_os 0 one_window) = Inr [0x61, 0x2E, 0x65]"
    by simp
  with pid opened closes modern show ?thesis
    by (simp add: one_window_simps)
qed

subsection \<open>Names\<close>

text \<open>
  C9: setting the name \<open>n\<close> on a window succeeds, makes the name registry map \<open>n\<close> to
  the window and adds \<open>n\<close> to the window's names; reading the name then returns one of
  the window's names, \<open>n\<close> or one set before, provided that iterating over the set of
  names yields its elements.
\<close>

theorem set_name_registers:
  assumes "set (iter (finsert n (w_names (objs st self))))
             = fset (finsert n (w_names (objs st self)))"
  shows "fst (set_name self (PyStr n) st) = Inr ()
         \<and> windows_by_name (snd (set_name self (PyStr n) st)) n = Some self
         \<and> w_names (objs (snd (set_name self (PyStr n) st)) self)
             = finsert n (w_names (objs st self))
         \<and> (\<exists>m. get_name iter self (snd (set_name self (PyStr n) st)) = Some m
                \<and> m |\<in>| finsert n (w_names (objs st self)))"
proof -
  let ?S = "finsert n (w_names (objs st self))"
  from assms have "iter ?S \<noteq> []"
    by auto
  then obtain m rest where it: "iter ?S = m # rest"
    by (cases "iter ?S") auto
  with assms have "m |\<in>| ?S"
    by (metis list.set_intros(1))
  with it show ?thesis
    by (simp add: set_name_def get_name_def)
qed

theorem set_name_registers_witness:
  "set ((\<lambda>S. [''first'', ''second''])
          (finsert ''second'' (w_names (objs (snd (set_name 0 (PyStr ''first'') one_window)) 0))))
     = fset (finsert ''second'' (w_names (objs (snd (set_name 0 (PyStr ''first'') one_window)) 0)))
   \<and> windows_by_name
        (snd (set_name 0 (PyStr ''second'') (snd (set_name 0 (PyStr ''first'') one_window))))
        ''second'' = Some 0
   \<and> get_name (\<lambda>S. [''first'', ''second'']) 0
        (snd (set_name 0 (PyStr ''second'') (snd (set_name 0 (PyStr ''first'') one_window))))
      = Some ''first''"
proof -
  let ?st = "snd (set_name 0 (PyStr ''first'') one_window)"
  have h: "set ((\<lambda>S. [''first'', ''second'']) (finsert ''second'' (w_names (objs ?st 0))))
      = fset (finsert ''second'' (w_names (objs ?st 0)))"
    by (auto simp: set_name_def one_window_simps)
  have g: "get_name (\<lambda>S. [''first'', ''second'']) 0 (snd (set_name 0 (PyStr ''second'') ?st))
      = Some ''first''"
    by (simp add: get_name_def set_name_def)
  from set_name_registers [of "\<lambda>S. [''first'', ''second'']" "''second''" ?st 0, OF h] h g show ?thesis
    by blast
qed

subsection \<open>Enumeration and the handle registry\<close>

lemma construct_Win32_int:
  "construct Win32Window (PyInt h) st =
     (Inr (lim st),
      st\<lparr>objs := (objs st)(lim st := \<lparr>w_class = Win32Window, w_id = PyInt h, w_names = {||}\<rparr>),
         lim := Suc (lim st),
         windows_by_id := (windows_by_id st)(h \<mapsto> lim st)\<rparr>)"
  using construct_integer [of "PyInt h" Win32Window st] by simp

lemma enum_callback_result:
  "fst (enum_callback hs argument st) = Inr (argument @ [lim st ..< lim st + length hs])
   \<and> lim (snd (enum_callback hs argument st)) = lim st + length hs
   \<and> calls (snd (enum_callback hs argument st)) = calls st"
proof (induction hs arbitrary: argument st)
  case Nil
  then show ?case by simp
next
  case (Cons h hs)
  let ?st1 = "st\<lparr>objs := (objs st)(lim st := \<lparr>w_class = Win32Window, w_id = PyInt h, w_names = {||}\<rparr>),
         lim := Suc (lim st), windows_by_id := (windows_by_id st)(h \<mapsto> lim st)\<rparr>"
  have step: "enum_callback (h # hs) argument st = enum_callback hs (argument @ [lim st]) ?st1"
    by (simp add: construct_Win32_int)
  have up: "lim st # [Suc (lim st) ..< Suc (lim st) + length hs] = [lim st ..< lim st + length (h # hs)]"
    by (simp add: upt_rec)
  from Cons.IH [of "argument @ [lim st]" ?st1] up show ?case
    unfolding step by simp
qed

lemma enum_callback_registry:
  "(h \<notin> set hs \<longrightarrow>
      windows_by_id (snd (enum_callback hs argument st)) h = windows_by_id st h)
   \<and> (\<forall>i < length hs. hs ! i = h \<and> (\<forall>j < length hs. i < j \<longrightarrow> hs ! j \<noteq> h) \<longrightarrow>
      windows_by_id (snd (enum_callback hs argument st)) h = Some (lim st + i))"
proof (induction hs arbitrary: argument st)
  case Nil
  then show ?case by simp
next
  case (Cons a hs)
  let ?st1 = "st\<lparr>objs := (objs st)(lim st := \<lparr>w_class = Win32Window, w_id = PyInt a, w_names = {||}\<rparr>),
         lim := Suc (lim st), windows_by_id := (windows_by_id st)(a \<mapsto> lim st)\<rparr>"
  have step: "enum_callback (a # hs) argument st = enum_callback hs (argument @ [lim st]) ?st1"
    by (simp add: construct_Win32_int)
  note IH = Cons.IH [of "argument @ [lim st]" ?st1]
  show ?case
  proof (intro conjI impI allI)
    assume "h \<notin> set (a # hs)"
    then show "windows_by_id (snd (enum_callback (a # hs) argument st)) h = windows_by_id st h"
      using IH unfolding step by simp
  next
    fix i
    assume i: "i < length (a # hs)"
      and last: "(a # hs) ! i = h \<and> (\<forall>j < length (a # hs). i < j \<longrightarrow> (a # hs) ! j \<noteq> h)"
    show "windows_by_id (snd (enum_callback (a # hs) argument st)) h = Some (lim st + i)"
    proof (cases i)
      case 0
      have "h \<notin> set hs"
      proof
        assume "h \<in> set hs"
        then obtain k where k: "k < length hs" "hs ! k = h"
          by (auto simp: in_set_conv_nth)
        then have "Suc k < length (a # hs)" "i < Suc k" using 0 by simp_all
        with last have "(a # hs) ! Suc k \<noteq> h" by blast
        with k show False by simp
      qed
      with IH have "windows_by_id (snd (enum_callback hs (argument @ [lim st]) ?st1)) h
          = windows_by_id ?st1 h" by blast
      moreover have "a = h" using last 0 by simp
      ultimately show ?thesis unfolding step using 0 by simp
    next
      case (Suc k)
      have k: "k < length hs" "hs ! k = h" using i last Suc by simp_all
      have "\<forall>j < length hs. k < j \<longrightarrow> hs ! j \<noteq> h"
      proof (intro allI impI)
        fix j assume "j < length hs" "k < j"
        then have "Suc j < length (a # hs)" "i < Suc j" using Suc by simp_all
        with last have "(a # hs) ! Suc j \<noteq> h" by blast
        then show "hs ! j \<noteq> h" by simp
      qed
      with IH k have "windows_by_id (snd (enum_callback hs (argument @ [lim st]) ?st1)) h
          = Some (lim ?st1 + k)" by blast
      then show ?thesis unfolding step using Suc by simp
    qed
  qed
qed

lemma get_all_windows_state:
  assumes "os_EnumWindows os (calls st) = (hs, failure)"
  shows "snd (get_all_windows os st)
      = snd (enum_callback hs [] (st\<lparr>calls := calls st @ [EnumWindows]\<rparr>))"
    and "failure = None \<Longrightarrow> fst (get_all_windows os st)
      = fst (enum_callback hs [] (st\<lparr>calls := calls st @ [EnumWindows]\<rparr>))"
  using assms enum_callback_result [of hs "[]" "st\<lparr>calls := calls st @ [EnumWindows]\<rparr>"]
  by (auto simp: get_all_windows_def split: prod.splits sum.splits option.splits)

text \<open>
  C10: constructing a \<^verbatim>\<open>Win32Window\<close> for a handle makes the handle registry map the
  handle to the new object, whatever it held before. \<^verbatim>\<open>get_all_windows\<close> returns one new
  object for each enumerated handle, and afterwards the registry maps each enumerated
  handle to the object made at its last position in the enumeration, so that
  \<^verbatim>\<open>get_foreground\<close> for such a handle returns that new object.
\<close>

theorem get_all_windows_overwrites_registry:
  assumes "os_EnumWindows os (calls st) = (hs, failure)"
  shows "windows_by_id (snd (construct Win32Window (PyInt h) st)) h = Some (lim st)
         \<and> fst (construct Win32Window (PyInt h) st) = Inr (lim st)
         \<and> (failure = None \<longrightarrow>
              fst (get_all_windows os st) = Inr [lim st ..< lim st + length hs])
         \<and> (\<forall>i < length hs. (\<forall>j < length hs. i < j \<longrightarrow> hs ! j \<noteq> hs ! i) \<longrightarrow>
              windows_by_id (snd (get_all_windows os st)) (hs ! i) = Some (lim st + i)
              \<and> (os_GetForegroundWindow os (calls (snd (get_all_windows os st))) = Inr (hs ! i)
                   \<longrightarrow> fst (get_foreground os (snd (get_all_windows os st))) = Inr (lim st + i)))"
proof (intro conjI allI impI)
  show "windows_by_id (snd (construct Win32Window (PyInt h) st)) h = Some (lim st)"
    by (simp add: construct_Win32_int)
  show "fst (construct Win32Window (PyInt h) st) = Inr (lim st)"
    by (simp add: construct_Win32_int)
next
  assume "failure = None"
  then show "fst (get_all_windows os st) = Inr [lim st ..< lim st + length hs]"
    using get_all_windows_state(2) [OF assms]
      enum_callback_result [of hs "[]" "st\<lparr>calls := calls st @ [EnumWindows]\<rparr>"]
    by simp
next
  fix i
  assume i: "i < length hs" and last: "\<forall>j < length hs. i < j \<longrightarrow> hs ! j \<noteq> hs ! i"
  from i last
  show reg: "windows_by_id (snd (get_all_windows os st)) (hs ! i) = Some (lim st + i)"
    using enum_callback_registry [of "hs ! i" hs "[]" "st\<lparr>calls := calls st @ [EnumWindows]\<rparr>"]
    unfolding get_all_windows_state(1) [OF assms] by simp
  assume "os_GetForegroundWindow os (calls (snd (get_all_windows os st))) = Inr (hs ! i)"
  with reg show "fst (get_foreground os (snd (get_all_windows os st))) = Inr (lim st + i)"
    by (simp add: get_foreground_def native_def)
qed

theorem get_all_windows_overwrites_registry_witness:
  "os_EnumWindows busy_os (calls one_window) = ([5, 9], None)
   \<and> windows_by_id one_window 5 = Some 0
   \<and> fst (get_all_windows busy_os one_window) = Inr [1, 2]
   \<and> windows_by_id (snd (get_all_windows busy_os one_window)) 5 = Some 1
   \<and> fst (get_foreground busy_os (snd (get_all_windows busy_os one_window))) = Inr 1"
proof -
  have enum: "os_EnumWindows busy_os (calls one_window) = ([5, 9], None)"
    by (simp add: busy_os_def)
  have old: "windows_by_id one_window 5 = Some 0"
    by (simp add: one_window_simps)
  have fg: "os_GetForegroundWindow busy_os (calls (snd (get_all_windows busy_os one_window)))
      = Inr ([5, 9] ! 0)"
    by (simp add: busy_os_def)
  have last: "\<forall>j < length [5, 9 :: int]. 0 < j \<longrightarrow> [5, 9] ! j \<noteq> [5, 9 :: int] ! 0"
    by (simp add: nth_Cons split: nat.splits)
  have upt: "[lim one_window ..< lim one_window + length [5, 9 :: int]] = [1, 2]"
    by (simp add: one_window_simps upt_rec)
  have len: "0 < length [5, 9 :: int]"
    by simp
  from get_all_windows_overwrites_registry [OF enum, of 5]
  have res: "fst (get_all_windows busy_os one_window)
      = Inr [lim one_window ..< lim one_window + length [5, 9 :: int]]"
    and each: "\<forall>i < length [5, 9 :: int].
      (\<forall>j < length [5, 9 :: int]. i < j \<longrightarrow> [5, 9] ! j \<noteq> [5, 9 :: int] ! i) \<longrightarrow>
        windows_by_id (snd (get_all_windows busy_os one_window)) ([5, 9] ! i)
          = Some (lim one_window + i)
        \<and> (os_GetForegroundWindow busy_os (calls (snd (get_all_windows busy_os one_window)))
              = Inr ([5, 9] ! i)
           \<longrightarrow> fst (get_foreground busy_os (snd (get_all_windows busy_os one_window)))
              = Inr (lim one_window + i))"
    by blast+
  from each len last fg
  have "windows_by_id (snd (get_all_windows busy_os one_window)) ([5, 9] ! 0)
          = Some (lim one_window + 0)
      \<and> fst (get_foreground busy_os (snd (get_all_windows busy_os one_window)))
          = Inr (lim one_window + 0)"
    by blast
  with res upt
  have "fst (get_all_windows busy_os one_window) = Inr [1, 2]
      \<and> windows_by_id (snd (get_all_windows busy_os one_window)) 5 = Some 1
      \<and> fst (get_foreground busy_os (snd (get_all_windows busy_os one_window))) = Inr 1"
    by (simp add: one_window_simps)
  with enum old show ?thesis by blast
qed

end
